theory Spec2Isabelle
  imports Complex_Main "HOL-Library.AList"
begin

section \<open>GIS service: data model\<close>

text \<open>
  The development embeds \<^verbatim>\<open>src/backend/gis_service/main.py\<close>. A Python \<^verbatim>\<open>float\<close> is an
  IEEE 754 binary64 number; it is modelled by the real number it denotes. The arithmetic
  of \<^verbatim>\<open>haversine_distance\<close>, \<^verbatim>\<open>calculate_polygon_area\<close> and \<^verbatim>\<open>calculate_line_length\<close>
  rounds every result as the hardware does (section \<open>Floating-point arithmetic\<close>). In
  \<^verbatim>\<open>calculate_bounds\<close> and \<^verbatim>\<open>calculate_center\<close> the comparisons are those of the floats,
  and the sum and the division of \<^verbatim>\<open>calculate_center\<close> are taken without rounding. A
  Python \<^verbatim>\<open>dict\<close> with string keys is an association list with distinct keys, in
  insertion order.
\<close>

type_synonym 'v dict = "(string \<times> 'v) list"

text \<open>Values of \<^verbatim>\<open>Dict[str, Any]\<close> fields arrive from a JSON request body.\<close>

datatype json =
    JNull
  | JBool bool
  | JNum real
  | JStr string
  | JArr "json list"
  | JObj "(string \<times> json) list"

text \<open>The exceptions of the Python runtime and of pydantic that the modelled code can meet.\<close>

datatype py_error = ValueError | ValidationError | TypeError | OSError | JSONDecodeError

record Coordinates =
  latitude :: real
  longitude :: real
  altitude :: "real option"

record Address =
  formatted_address :: string
  country :: "string option"
  region :: "string option"
  city :: "string option"
  district :: "string option"
  street :: "string option"
  house_number :: "string option"
  postal_code :: "string option"

text \<open>
  \<^verbatim>\<open>GeoPoint\<close>, \<^verbatim>\<open>GeoPolygon\<close> and \<^verbatim>\<open>GeoLine\<close> share the field names \<^verbatim>\<open>id\<close>,
  \<^verbatim>\<open>coordinates\<close>, \<^verbatim>\<open>properties\<close> and \<^verbatim>\<open>created_at\<close>; each gets the class as a prefix
  here. \<^verbatim>\<open>created_at\<close> is a \<^verbatim>\<open>datetime\<close> object, kept as its ISO text.
\<close>

record GeoPoint =
  point_id :: string
  point_coordinates :: Coordinates
  point_address :: "Address option"
  point_properties :: "json dict"
  point_created_at :: string

record GeoPolygon =
  polygon_id :: string
  polygon_coordinates :: "Coordinates list list"
  polygon_properties :: "json dict"
  area_sqm :: "real option"
  perimeter_m :: "real option"
  polygon_created_at :: string

record GeoLine =
  line_id :: string
  line_coordinates :: "Coordinates list"
  line_properties :: "json dict"
  length_m :: "real option"
  line_created_at :: string

record ProjectGeoData =
  project_id :: string
  points :: "GeoPoint list"
  polygons :: "GeoPolygon list"
  lines :: "GeoLine list"
  bounds :: "real dict option"
  center :: "Coordinates option"

text \<open>
  \<^verbatim>\<open>Coordinates(latitude=.., longitude=..)\<close>: pydantic checks \<^verbatim>\<open>ge\<close>/\<^verbatim>\<open>le\<close> of both
  fields and raises \<^verbatim>\<open>ValidationError\<close>; \<^verbatim>\<open>altitude\<close> defaults to \<^verbatim>\<open>None\<close>.
\<close>

definition valid_Coordinates :: "Coordinates \<Rightarrow> bool" where
  "valid_Coordinates c \<longleftrightarrow>
     - 90 \<le> latitude c \<and> latitude c \<le> 90 \<and> - 180 \<le> longitude c \<and> longitude c \<le> 180"

definition new_Coordinates :: "real \<Rightarrow> real \<Rightarrow> py_error + Coordinates" where
  "new_Coordinates lat lon =
     (if - 90 \<le> lat \<and> lat \<le> 90 \<and> - 180 \<le> lon \<and> lon \<le> 180
      then Inr \<lparr>latitude = lat, longitude = lon, altitude = None\<rparr>
      else Inl ValidationError)"

text \<open>\<^verbatim>\<open>ProjectGeoData(project_id=project_id)\<close>: every other field takes its default.\<close>

definition new_ProjectGeoData :: "string \<Rightarrow> ProjectGeoData" where
  "new_ProjectGeoData pid =
     \<lparr>project_id = pid, points = [], polygons = [], lines = [], bounds = None, center = None\<rparr>"

section \<open>Floating-point arithmetic\<close>

text \<open>
  Rounding to the nearest binary64 number, ties to the even significand: a number with
  binary exponent \<open>k\<close> (between \<open>2 ^ k\<close> and \<open>2 ^ (k + 1)\<close> in magnitude) is rounded to a
  multiple of \<open>2 ^ (k - 52)\<close>, and below the normal range to a multiple of
  \<open>2 ^ (- 1074)\<close>. Overflow, infinities and NaN are not modelled: with coordinates in
  range every intermediate result of the modelled functions is far below the largest
  float.
\<close>

definition round_half_even :: "real \<Rightarrow> int" where
  "round_half_even r =
     (let f = \<lfloor>r\<rfloor>; d = r - of_int f
      in if d < 1 / 2 then f
         else if 1 / 2 < d then f + 1
         else if even f then f else f + 1)"

definition ulp_exponent :: "real \<Rightarrow> int" where
  "ulp_exponent x = max (\<lfloor>log 2 \<bar>x\<bar>\<rfloor> - 52) (- 1074)"

definition round53 :: "real \<Rightarrow> real" where
  "round53 x =
     (if x = 0 then 0
      else of_int (round_half_even (x / 2 powr of_int (ulp_exponent x)))
             * 2 powr of_int (ulp_exponent x))"

text \<open>
  The operators \<^verbatim>\<open>+\<close>, \<^verbatim>\<open>-\<close>, \<^verbatim>\<open>*\<close> and \<^verbatim>\<open>/\<close> of two floats round the exact result. An
  \<^verbatim>\<open>int\<close> operand (\<^verbatim>\<open>0\<close>, \<^verbatim>\<open>1\<close>, \<^verbatim>\<open>2\<close>, \<^verbatim>\<open>n\<close>, \<^verbatim>\<open>111320 ** 2\<close>, \<^verbatim>\<open>R\<close>) is converted to the
  float of the same value first. \<^verbatim>\<open>abs\<close> is exact.
\<close>

definition fadd :: "real \<Rightarrow> real \<Rightarrow> real" where
  "fadd x y = round53 (x + y)"

definition fsub :: "real \<Rightarrow> real \<Rightarrow> real" where
  "fsub x y = round53 (x - y)"

definition fmul :: "real \<Rightarrow> real \<Rightarrow> real" where
  "fmul x y = round53 (x * y)"

definition fdiv :: "real \<Rightarrow> real \<Rightarrow> real" where
  "fdiv x y = round53 (x / y)"

text \<open>
  \<^verbatim>\<open>math.sin\<close>, \<^verbatim>\<open>math.cos\<close>, \<^verbatim>\<open>math.atan2\<close> and \<^verbatim>\<open>x ** 2\<close> (the C function \<^verbatim>\<open>pow\<close>) return
  what the C library of the platform returns; the library is a parameter of the
  functions that call it.
\<close>

record libm =
  libm_sin :: "real \<Rightarrow> real"
  libm_cos :: "real \<Rightarrow> real"
  libm_atan2 :: "real \<Rightarrow> real \<Rightarrow> real"
  libm_pow :: "real \<Rightarrow> nat \<Rightarrow> real"

text \<open>The angle of the point with abscissa \<open>x\<close> and ordinate \<open>y\<close>.\<close>

definition atan2 :: "real \<Rightarrow> real \<Rightarrow> real" where
  "atan2 y x =
     (if 0 < x then arctan (y / x)
      else if x < 0 \<and> 0 \<le> y then arctan (y / x) + pi
      else if x < 0 then arctan (y / x) - pi
      else if 0 < y then pi / 2
      else if y < 0 then - (pi / 2)
      else 0)"

text \<open>
  A library that returns the correctly rounded value of every function. The libraries in
  use stay within one unit in the last place of it, and the C standard fixes
  \<^verbatim>\<open>cos(0) = 1\<close>; the theorems below that evaluate this library call it at \<^verbatim>\<open>cos(0)\<close> only.
\<close>

definition rounded_libm :: libm where
  "rounded_libm =
     \<lparr>libm_sin = (\<lambda>x. round53 (sin x)),
      libm_cos = (\<lambda>x. round53 (cos x)),
      libm_atan2 = (\<lambda>y x. round53 (atan2 y x)),
      libm_pow = (\<lambda>x n. round53 (x ^ n))\<rparr>"

section \<open>GeometryService\<close>

subsection \<open>The pieces of the Python library it calls\<close>

text \<open>
  \<^verbatim>\<open>math.radians(x)\<close> is \<^verbatim>\<open>x * degToRad\<close>, where \<^verbatim>\<open>degToRad\<close> is the constant
  \<^verbatim>\<open>Py_MATH_PI / 180.0\<close> and \<^verbatim>\<open>Py_MATH_PI\<close> is the float nearest to the number pi.
\<close>

definition M_PI :: real where
  "M_PI = 884279719003555 / 2 ^ 48"

definition deg_to_rad :: real where
  "deg_to_rad = fdiv M_PI 180"

definition radians :: "real \<Rightarrow> real" where
  "radians x = fmul x deg_to_rad"

text \<open>
  \<^verbatim>\<open>math.sqrt\<close> raises \<^verbatim>\<open>ValueError\<close> on a negative argument and returns the correctly
  rounded square root otherwise.
\<close>

definition py_sqrt :: "real \<Rightarrow> py_error + real" where
  "py_sqrt x = (if x < 0 then Inl ValueError else Inr (round53 (sqrt x)))"

text \<open>
  \<^verbatim>\<open>max\<close> and \<^verbatim>\<open>min\<close> of a list: \<^verbatim>\<open>ValueError\<close> on the empty list; otherwise the first
  element is the candidate and a later element replaces it when strictly greater (smaller).
\<close>

fun py_max :: "real list \<Rightarrow> py_error + real" where
  "py_max [] = Inl ValueError"
| "py_max (x # xs) = Inr (foldl (\<lambda>m v. if m < v then v else m) x xs)"

fun py_min :: "real list \<Rightarrow> py_error + real" where
  "py_min [] = Inl ValueError"
| "py_min (x # xs) = Inr (foldl (\<lambda>m v. if v < m then v else m) x xs)"

subsection \<open>haversine_distance\<close>

text \<open>The value of the variable \<^verbatim>\<open>a\<close>.\<close>

definition haversine_a :: "libm \<Rightarrow> real \<Rightarrow> real \<Rightarrow> real \<Rightarrow> real \<Rightarrow> real" where
  "haversine_a m lat1 lon1 lat2 lon2 =
     (let lat1_rad = radians lat1;
          lat2_rad = radians lat2;
          delta_lat = radians (fsub lat2 lat1);
          delta_lon = radians (fsub lon2 lon1)
      in fadd (libm_pow m (libm_sin m (fdiv delta_lat 2)) 2)
              (fmul (fmul (libm_cos m lat1_rad) (libm_cos m lat2_rad))
                    (libm_pow m (libm_sin m (fdiv delta_lon 2)) 2)))"

text \<open>
  \<^verbatim>\<open>math.sqrt(a)\<close> is evaluated before \<^verbatim>\<open>math.sqrt(1 - a)\<close>; the source has no guard
  against an \<^verbatim>\<open>a\<close> that rounding has taken above 1.
\<close>

definition haversine_distance ::
    "libm \<Rightarrow> real \<Rightarrow> real \<Rightarrow> real \<Rightarrow> real \<Rightarrow> py_error + real" where
  "haversine_distance m lat1 lon1 lat2 lon2 =
     (let a = haversine_a m lat1 lon1 lat2 lon2
      in case py_sqrt a of
           Inl e \<Rightarrow> Inl e
         | Inr sa \<Rightarrow>
             (case py_sqrt (fsub 1 a) of
                Inl e \<Rightarrow> Inl e
              | Inr sb \<Rightarrow> Inr (fmul 6371000 (fmul 2 (libm_atan2 m sa sb)))))"

subsection \<open>calculate_polygon_area\<close>

text \<open>
  One round of the shoelace loop: \<^verbatim>\<open>j = (i + 1) % n\<close>, then the two updates of
  \<^verbatim>\<open>area\<close>, each a product and a sum or difference of floats. Every index read is below
  \<^verbatim>\<open>n = len(coordinates)\<close>.
\<close>

definition shoelace_step :: "Coordinates list \<Rightarrow> real \<Rightarrow> nat \<Rightarrow> real" where
  "shoelace_step cs area i =
     (let j = (i + 1) mod length cs;
          area1 = fadd area (fmul (longitude (cs ! i)) (latitude (cs ! j)))
      in fsub area1 (fmul (longitude (cs ! j)) (latitude (cs ! i))))"

text \<open>\<^verbatim>\<open>sum(..)\<close> of floats: the additions run from the left, starting at \<^verbatim>\<open>0\<close>.\<close>

definition py_sum :: "real list \<Rightarrow> real" where
  "py_sum xs = foldl fadd 0 xs"

definition calculate_polygon_area :: "libm \<Rightarrow> Coordinates list \<Rightarrow> real" where
  "calculate_polygon_area m cs =
     (if length cs < 3 then 0
      else
        let n = length cs;
            area = foldl (shoelace_step cs) 0 [0..<n];
            area2 = fdiv \<bar>area\<bar> 2;
            avg_lat = fdiv (py_sum (map latitude cs)) (real n);
            lat_factor = libm_cos m (radians avg_lat);
            sqm = fmul (fmul area2 (111320\<^sup>2)) lat_factor
        in \<bar>sqm\<bar>)"

subsection \<open>calculate_line_length\<close>

text \<open>
  The loop over \<^verbatim>\<open>range(len(coordinates) - 1)\<close> adds the distance of each consecutive
  pair to \<^verbatim>\<open>total_length\<close>; an exception of \<^verbatim>\<open>haversine_distance\<close> leaves the loop.
\<close>

fun line_length_loop :: "libm \<Rightarrow> Coordinates list \<Rightarrow> real \<Rightarrow> py_error + real" where
  "line_length_loop m (c1 # c2 # cs) total_length =
     (case haversine_distance m (latitude c1) (longitude c1) (latitude c2) (longitude c2) of
        Inl e \<Rightarrow> Inl e
      | Inr d \<Rightarrow> line_length_loop m (c2 # cs) (fadd total_length d))"
| "line_length_loop m cs total_length = Inr total_length"

definition calculate_line_length :: "libm \<Rightarrow> Coordinates list \<Rightarrow> py_error + real" where
  "calculate_line_length m cs =
     (if length cs < 2 then Inr 0 else line_length_loop m cs 0)"

subsection \<open>calculate_bounds and calculate_center\<close>

definition calculate_bounds :: "Coordinates list \<Rightarrow> py_error + real dict" where
  "calculate_bounds cs =
     (if cs = [] then Inr []
      else
        let lats = map latitude cs; lons = map longitude cs
        in case py_max lats of Inl e \<Rightarrow> Inl e | Inr n \<Rightarrow>
           (case py_min lats of Inl e \<Rightarrow> Inl e | Inr s \<Rightarrow>
           (case py_max lons of Inl e \<Rightarrow> Inl e | Inr ea \<Rightarrow>
           (case py_min lons of Inl e \<Rightarrow> Inl e | Inr w \<Rightarrow>
              Inr [(''north'', n), (''south'', s), (''east'', ea), (''west'', w)]))))"

definition calculate_center :: "Coordinates list \<Rightarrow> py_error + Coordinates" where
  "calculate_center cs =
     (if cs = [] then new_Coordinates 0 0
      else
        let avg_lat = sum_list (map latitude cs) / real (length cs);
            avg_lon = sum_list (map longitude cs) / real (length cs)
        in new_Coordinates avg_lat avg_lon)"

section \<open>GeoDataStorage\<close>

text \<open>
  The storage object holds the cache \<^verbatim>\<open>self.projects\<close> and, on disk, one file
  \<^verbatim>\<open>gis_data/<project_id>.json\<close> per project. A file is either the JSON document that a
  completed \<^verbatim>\<open>save_project_geodata\<close> wrote (the aggregate's dictionary plus
  \<^verbatim>\<open>updated_at\<close>), or what an interrupted write leaves behind: \<^verbatim>\<open>open(.., 'w')\<close> has
  truncated the file and the document is missing or incomplete, so \<^verbatim>\<open>json.loads\<close> raises
  on it. Reading a document back gives the aggregate that was written (the JSON text
  itself is not modelled). Files are keyed by the project id (the path is the id with a
  fixed prefix and suffix).
\<close>

datatype durable = Partial | Document ProjectGeoData string

record storage =
  projects :: "string \<rightharpoonup> ProjectGeoData"
  files :: "string \<rightharpoonup> durable"

definition empty_storage :: storage where
  "empty_storage = \<lparr>projects = Map.empty, files = Map.empty\<rparr>"

text \<open>
  What the world outside the program decides during one request: whether opening the file
  for writing, writing (or closing) it, reading it, unlinking it or asking for its
  existence raises; the longest file name that the file system accepts; whether
  \<^verbatim>\<open>json.dumps\<close> raises on the aggregate's dictionary; the clock; and the C library.
\<close>

record env =
  open_raises :: bool
  write_raises :: bool
  read_raises :: bool
  unlink_raises :: bool
  exists_raises :: bool
  name_max :: nat
  dumps_raises :: "ProjectGeoData \<Rightarrow> bool"
  now :: string
  math :: libm

text \<open>
  The file of a project is named \<^verbatim>\<open><project_id>.json\<close>. With a name longer than the
  limit of the file system, \<^verbatim>\<open>open\<close> and \<^verbatim>\<open>stat\<close> fail with \<^verbatim>\<open>ENAMETOOLONG\<close>;
  \<^verbatim>\<open>Path.exists\<close> passes on every \<^verbatim>\<open>OSError\<close> of \<^verbatim>\<open>stat\<close> other than \<^verbatim>\<open>ENOENT\<close>,
  \<^verbatim>\<open>ENOTDIR\<close>, \<^verbatim>\<open>EBADF\<close> and \<^verbatim>\<open>ELOOP\<close>.
\<close>

definition name_too_long :: "env \<Rightarrow> string \<Rightarrow> bool" where
  "name_too_long e pid \<longleftrightarrow> name_max e < length pid + 5"

text \<open>
  The behaviour of Python's \<^verbatim>\<open>json.dumps\<close> on \<^verbatim>\<open>geodata.dict()\<close>: pydantic's
  \<^verbatim>\<open>dict()\<close> keeps every member's \<^verbatim>\<open>created_at\<close> as a \<^verbatim>\<open>datetime\<close> object, for which
  \<^verbatim>\<open>json.dumps\<close> (called without \<^verbatim>\<open>default=\<close>) raises \<^verbatim>\<open>TypeError\<close>. The dictionary
  of an aggregate with no point, polygon or line holds strings, numbers, lists and
  \<^verbatim>\<open>None\<close> only.
\<close>

definition json_dumps_raises :: "ProjectGeoData \<Rightarrow> bool" where
  "json_dumps_raises g \<longleftrightarrow> points g \<noteq> [] \<or> polygons g \<noteq> [] \<or> lines g \<noteq> []"

text \<open>
  The program on a disk without faults: file names of up to 255 bytes, Python's
  \<^verbatim>\<open>json.dumps\<close>.
\<close>

definition python_env :: "string \<Rightarrow> env" where
  "python_env ts =
     \<lparr>open_raises = False, write_raises = False, read_raises = False, unlink_raises = False,
      exists_raises = False, name_max = 255,
      dumps_raises = json_dumps_raises, now = ts, math = rounded_libm\<rparr>"

text \<open>
  \<^verbatim>\<open>GeoDataStorage.save_project_geodata\<close>. The whole body is inside \<^verbatim>\<open>try\<close>; any
  exception gives \<^verbatim>\<open>False\<close>. The file is opened (and truncated) before
  \<^verbatim>\<open>json.dumps\<close> runs, and the cache is assigned after the file is closed. When
  \<^verbatim>\<open>open\<close> itself raises, no file is created or changed.
\<close>

definition GeoDataStorage_save_project_geodata ::
    "env \<Rightarrow> storage \<Rightarrow> string \<Rightarrow> ProjectGeoData \<Rightarrow> bool \<times> storage" where
  "GeoDataStorage_save_project_geodata e st pid geodata =
     (if open_raises e \<or> name_too_long e pid then (False, st)
      else if dumps_raises e geodata \<or> write_raises e
        then (False, st\<lparr>files := (files st)(pid \<mapsto> Partial)\<rparr>)
      else (True, st\<lparr>files := (files st)(pid \<mapsto> Document geodata (now e)),
                      projects := (projects st)(pid \<mapsto> geodata)\<rparr>))"

text \<open>
  The coordinates of an aggregate, in the order in which the save endpoint collects its
  \<^verbatim>\<open>all_coordinates\<close>: the points, every ring of every polygon, the lines.
  \<^verbatim>\<open>ProjectGeoData(**data)\<close> validates every coordinate of a document again (and ignores
  the extra key \<^verbatim>\<open>updated_at\<close>).
\<close>

definition all_Coordinates :: "ProjectGeoData \<Rightarrow> Coordinates list" where
  "all_Coordinates g =
     map point_coordinates (points g)
     @ concat (map (\<lambda>p. concat (polygon_coordinates p)) (polygons g))
     @ concat (map line_coordinates (lines g))"

definition valid_ProjectGeoData :: "ProjectGeoData \<Rightarrow> bool" where
  "valid_ProjectGeoData g \<longleftrightarrow>
     list_all valid_Coordinates (all_Coordinates g)
     \<and> (case center g of None \<Rightarrow> True | Some c \<Rightarrow> valid_Coordinates c)"

text \<open>
  \<^verbatim>\<open>GeoDataStorage.load_project_geodata\<close>: the cache first, then \<^verbatim>\<open>file_path.exists()\<close>
  and the file; every exception gives \<^verbatim>\<open>None\<close>. The object returned is the object held by
  the cache.
\<close>

definition GeoDataStorage_load_project_geodata ::
    "env \<Rightarrow> storage \<Rightarrow> string \<Rightarrow> ProjectGeoData option \<times> storage" where
  "GeoDataStorage_load_project_geodata e st pid =
     (case projects st pid of
        Some g \<Rightarrow> (Some g, st)
      | None \<Rightarrow>
          if exists_raises e \<or> name_too_long e pid then (None, st)
          else
            (case files st pid of
               None \<Rightarrow> (None, st)
             | Some d \<Rightarrow>
                 if read_raises e then (None, st)
                 else (case d of
                         Partial \<Rightarrow> (None, st)
                       | Document g ts \<Rightarrow>
                           if valid_ProjectGeoData g
                           then (Some g, st\<lparr>projects := (projects st)(pid \<mapsto> g)\<rparr>)
                           else (None, st))))"

text \<open>
  \<^verbatim>\<open>GeoDataStorage.delete_project_geodata\<close>: \<^verbatim>\<open>file_path.exists()\<close>, \<^verbatim>\<open>unlink\<close> only
  when the file exists, then the cache entry; an exception of \<^verbatim>\<open>exists\<close> or of
  \<^verbatim>\<open>unlink\<close> skips the eviction and gives \<^verbatim>\<open>False\<close>.
\<close>

definition GeoDataStorage_delete_project_geodata ::
    "env \<Rightarrow> storage \<Rightarrow> string \<Rightarrow> bool \<times> storage" where
  "GeoDataStorage_delete_project_geodata e st pid =
     (if exists_raises e \<or> name_too_long e pid then (False, st)
      else
        (case files st pid of
           Some d \<Rightarrow>
             if unlink_raises e then (False, st)
             else (True, st\<lparr>files := (files st)(pid := None),
                             projects := (projects st)(pid := None)\<rparr>)
         | None \<Rightarrow> (True, st\<lparr>projects := (projects st)(pid := None)\<rparr>)))"

section \<open>API endpoints\<close>

text \<open>
  The \<^verbatim>\<open>detail\<close> and \<^verbatim>\<open>message\<close> texts of the source are Russian sentences; each is
  named here by what it says. An endpoint either returns its reply, raises
  \<^verbatim>\<open>HTTPException\<close> with a status code, or lets a Python exception escape (which the
  framework answers with status 500).
\<close>

datatype message =
    GeodataSaved
  | GeodataDeleted
  | GeodataNotFound
  | SaveGeodataFailed
  | DeleteGeodataFailed
  | SavePointFailed
  | SavePolygonFailed
  | UnsupportedExportFormat

datatype http_error = HTTPException nat message | Unhandled py_error

datatype reply =
    StatusMessage message
  | PointAdded string
  | PolygonAdded string
  | Exported json

subsection \<open>POST /projects/{project_id}/geodata\<close>

text \<open>The area assignment in the polygon loop, guarded as in the source.\<close>

definition recompute_polygon :: "libm \<Rightarrow> GeoPolygon \<Rightarrow> GeoPolygon" where
  "recompute_polygon m p =
     (if polygon_coordinates p \<noteq> [] \<and> hd (polygon_coordinates p) \<noteq> []
      then p\<lparr>area_sqm := Some (calculate_polygon_area m (hd (polygon_coordinates p)))\<rparr>
      else p)"

text \<open>The line loop; an exception of \<^verbatim>\<open>calculate_line_length\<close> ends the request.\<close>

fun recompute_lines :: "libm \<Rightarrow> GeoLine list \<Rightarrow> py_error + GeoLine list" where
  "recompute_lines m [] = Inr []"
| "recompute_lines m (l # ls) =
     (case calculate_line_length m (line_coordinates l) of
        Inl e \<Rightarrow> Inl e
      | Inr len \<Rightarrow>
          (case recompute_lines m ls of
             Inl e \<Rightarrow> Inl e
           | Inr ls' \<Rightarrow> Inr (l\<lparr>length_m := Some len\<rparr> # ls')))"

text \<open>
  Everything the endpoint does to the request's aggregate before it calls the storage:
  the path parameter replaces \<^verbatim>\<open>project_id\<close>, the three loops collect
  \<^verbatim>\<open>all_coordinates\<close> (points, every ring of every polygon, lines) and set the derived
  fields, and \<^verbatim>\<open>bounds\<close> and \<^verbatim>\<open>center\<close> are assigned only when \<^verbatim>\<open>all_coordinates\<close> is
  not empty.
\<close>

definition recompute_derived ::
    "libm \<Rightarrow> string \<Rightarrow> ProjectGeoData \<Rightarrow> py_error + ProjectGeoData" where
  "recompute_derived m pid geodata =
     (let g1 = geodata\<lparr>project_id := pid\<rparr>;
          all_coordinates = all_Coordinates g1;
          g2 = g1\<lparr>polygons := map (recompute_polygon m) (polygons g1)\<rparr>
      in case recompute_lines m (lines g2) of
           Inl e \<Rightarrow> Inl e
         | Inr ls \<Rightarrow>
             (let g3 = g2\<lparr>lines := ls\<rparr>
              in if all_coordinates \<noteq> []
                 then (case calculate_bounds all_coordinates of
                         Inl e \<Rightarrow> Inl e
                       | Inr b \<Rightarrow>
                           (case calculate_center all_coordinates of
                              Inl e \<Rightarrow> Inl e
                            | Inr c \<Rightarrow> Inr (g3\<lparr>bounds := Some b, center := Some c\<rparr>)))
                 else Inr g3))"

definition save_project_geodata ::
    "env \<Rightarrow> storage \<Rightarrow> string \<Rightarrow> ProjectGeoData \<Rightarrow> (http_error + reply) \<times> storage" where
  "save_project_geodata e st pid geodata =
     (case recompute_derived (math e) pid geodata of
        Inl err \<Rightarrow> (Inl (Unhandled err), st)
      | Inr g \<Rightarrow>
          (case GeoDataStorage_save_project_geodata e st pid g of
             (success, st') \<Rightarrow>
               if \<not> success then (Inl (HTTPException 500 SaveGeodataFailed), st')
               else (Inr (StatusMessage GeodataSaved), st')))"

subsection \<open>GET and DELETE /projects/{project_id}/geodata\<close>

definition get_project_geodata ::
    "env \<Rightarrow> storage \<Rightarrow> string \<Rightarrow> (http_error + ProjectGeoData) \<times> storage" where
  "get_project_geodata e st pid =
     (case GeoDataStorage_load_project_geodata e st pid of
        (None, st') \<Rightarrow> (Inl (HTTPException 404 GeodataNotFound), st')
      | (Some g, st') \<Rightarrow> (Inr g, st'))"

definition delete_project_geodata ::
    "env \<Rightarrow> storage \<Rightarrow> string \<Rightarrow> (http_error + reply) \<times> storage" where
  "delete_project_geodata e st pid =
     (case GeoDataStorage_delete_project_geodata e st pid of
        (success, st') \<Rightarrow>
          if \<not> success then (Inl (HTTPException 500 DeleteGeodataFailed), st')
          else (Inr (StatusMessage GeodataDeleted), st'))"

subsection \<open>POST /projects/{project_id}/points and /polygons\<close>

text \<open>
  \<^verbatim>\<open>geodata.points.append(point)\<close> changes the object that \<^verbatim>\<open>load_project_geodata\<close>
  returned. When that call returned an aggregate, it is the object the cache holds under
  \<^verbatim>\<open>project_id\<close>, so the cache entry changes with it, before and whatever the outcome of
  the save. A new aggregate is in no cache until the save stores it.
\<close>

definition add_project_point ::
    "env \<Rightarrow> storage \<Rightarrow> string \<Rightarrow> GeoPoint \<Rightarrow> (http_error + reply) \<times> storage" where
  "add_project_point e st pid point =
     (case GeoDataStorage_load_project_geodata e st pid of
        (loaded, st1) \<Rightarrow>
          (case (case loaded of
                   None \<Rightarrow> ((new_ProjectGeoData pid)\<lparr>points := [point]\<rparr>, st1)
                 | Some g \<Rightarrow>
                     (g\<lparr>points := points g @ [point]\<rparr>,
                      st1\<lparr>projects := (projects st1)(pid \<mapsto> g\<lparr>points := points g @ [point]\<rparr>)\<rparr>)) of
             (geodata, st2) \<Rightarrow>
               (case GeoDataStorage_save_project_geodata e st2 pid geodata of
                  (success, st3) \<Rightarrow>
                    if \<not> success then (Inl (HTTPException 500 SavePointFailed), st3)
                    else (Inr (PointAdded (point_id point)), st3))))"

definition add_project_polygon ::
    "env \<Rightarrow> storage \<Rightarrow> string \<Rightarrow> GeoPolygon \<Rightarrow> (http_error + reply) \<times> storage" where
  "add_project_polygon e st pid polygon =
     (case GeoDataStorage_load_project_geodata e st pid of
        (loaded, st1) \<Rightarrow>
          (let polygon' = recompute_polygon (math e) polygon
           in case (case loaded of
                      None \<Rightarrow> ((new_ProjectGeoData pid)\<lparr>polygons := [polygon']\<rparr>, st1)
                    | Some g \<Rightarrow>
                        (g\<lparr>polygons := polygons g @ [polygon']\<rparr>,
                         st1\<lparr>projects :=
                               (projects st1)(pid \<mapsto> g\<lparr>polygons := polygons g @ [polygon']\<rparr>)\<rparr>)) of
                (geodata, st2) \<Rightarrow>
                  (case GeoDataStorage_save_project_geodata e st2 pid geodata of
                     (success, st3) \<Rightarrow>
                       if \<not> success then (Inl (HTTPException 500 SavePolygonFailed), st3)
                       else (Inr (PolygonAdded (polygon_id polygon)), st3))))"

subsection \<open>GET /projects/{project_id}/export\<close>

text \<open>
  \<^verbatim>\<open>str.lower\<close>, on the letters that matter for the comparison with \<^verbatim>\<open>"geojson"\<close>: the
  ASCII capitals become small letters, every other byte stays.
\<close>

definition py_lower :: "string \<Rightarrow> string" where
  "py_lower s =
     map (\<lambda>c. let n = (of_char c :: nat) in if 65 \<le> n \<and> n \<le> 90 then char_of (n + 32) else c) s"

text \<open>
  A dictionary display \<^verbatim>\<open>{k1: v1, .., **d}\<close>: the items of \<^verbatim>\<open>d\<close> are stored in order
  after the written ones; storing under a key that is present replaces its value in place.
\<close>

definition dict_spread :: "'v dict \<Rightarrow> 'v dict \<Rightarrow> 'v dict" where
  "dict_spread base d = fold (\<lambda>kv acc. AList.update (fst kv) (snd kv) acc) d base"

definition float_or_null :: "real option \<Rightarrow> json" where
  "float_or_null x = (case x of None \<Rightarrow> JNull | Some v \<Rightarrow> JNum v)"

text \<open>\<^verbatim>\<open>[coord.longitude, coord.latitude]\<close>\<close>

definition lon_lat :: "Coordinates \<Rightarrow> json" where
  "lon_lat c = JArr [JNum (longitude c), JNum (latitude c)]"

definition point_feature :: "GeoPoint \<Rightarrow> json" where
  "point_feature point =
     JObj [(''type'', JStr ''Feature''),
           (''geometry'', JObj [(''type'', JStr ''Point''),
                                (''coordinates'', lon_lat (point_coordinates point))]),
           (''properties'',
              JObj (dict_spread [(''id'', JStr (point_id point))] (point_properties point)))]"

definition polygon_feature :: "GeoPolygon \<Rightarrow> json" where
  "polygon_feature polygon =
     JObj [(''type'', JStr ''Feature''),
           (''geometry'',
              JObj [(''type'', JStr ''Polygon''),
                    (''coordinates'',
                       JArr (map (\<lambda>ring. JArr (map lon_lat ring)) (polygon_coordinates polygon)))]),
           (''properties'',
              JObj (dict_spread [(''id'', JStr (polygon_id polygon)),
                                 (''area_sqm'', float_or_null (area_sqm polygon))]
                      (polygon_properties polygon)))]"

definition line_feature :: "GeoLine \<Rightarrow> json" where
  "line_feature line =
     JObj [(''type'', JStr ''Feature''),
           (''geometry'', JObj [(''type'', JStr ''LineString''),
                                (''coordinates'', JArr (map lon_lat (line_coordinates line)))]),
           (''properties'',
              JObj (dict_spread [(''id'', JStr (line_id line)),
                                 (''length_m'', float_or_null (length_m line))]
                      (line_properties line)))]"

text \<open>\<^verbatim>\<open>geodata.center.dict()\<close>\<close>

definition Coordinates_dict :: "Coordinates \<Rightarrow> json" where
  "Coordinates_dict c =
     JObj [(''latitude'', JNum (latitude c)), (''longitude'', JNum (longitude c)),
           (''altitude'', float_or_null (altitude c))]"

definition geojson_features :: "ProjectGeoData \<Rightarrow> json list" where
  "geojson_features geodata =
     map point_feature (points geodata)
     @ map polygon_feature (polygons geodata)
     @ map line_feature (lines geodata)"

definition to_geojson :: "string \<Rightarrow> ProjectGeoData \<Rightarrow> json" where
  "to_geojson pid geodata =
     JObj [(''type'', JStr ''FeatureCollection''),
           (''features'', JArr (geojson_features geodata)),
           (''properties'',
              JObj [(''project_id'', JStr pid),
                    (''bounds'', (case bounds geodata of
                                   None \<Rightarrow> JNull
                                 | Some b \<Rightarrow> JObj (map (\<lambda>kv. (fst kv, JNum (snd kv))) b))),
                    (''center'', (case center geodata of
                                   None \<Rightarrow> JNull
                                 | Some c \<Rightarrow> Coordinates_dict c))])]"

definition export_project_geodata ::
    "env \<Rightarrow> storage \<Rightarrow> string \<Rightarrow> string \<Rightarrow> (http_error + reply) \<times> storage" where
  "export_project_geodata e st pid format =
     (case GeoDataStorage_load_project_geodata e st pid of
        (None, st') \<Rightarrow> (Inl (HTTPException 404 GeodataNotFound), st')
      | (Some geodata, st') \<Rightarrow>
          if py_lower format = ''geojson'' then (Inr (Exported (to_geojson pid geodata)), st')
          else (Inl (HTTPException 400 UnsupportedExportFormat), st'))"

text \<open>Reading a member of a JSON object, to state what an exported document holds.\<close>

fun json_get :: "string \<Rightarrow> json \<Rightarrow> json option" where
  "json_get k (JObj kvs) = map_of kvs k"
| "json_get k _ = None"

section \<open>Rings without rounding\<close>



section \<open>Concrete inputs\<close>

text \<open>Small requests and stores on which the theorems below are evaluated.\<close>

definition point_a :: GeoPoint where
  "point_a =
     \<lparr>point_id = ''a'',
      point_coordinates = \<lparr>latitude = 10, longitude = 20, altitude = None\<rparr>,
      point_address = None, point_properties = [], point_created_at = ''2024-01-01T00:00:00''\<rparr>"

definition point_b :: GeoPoint where
  "point_b =
     \<lparr>point_id = ''b'',
      point_coordinates = \<lparr>latitude = 30, longitude = 40, altitude = None\<rparr>,
      point_address = None, point_properties = [], point_created_at = ''2024-01-02T00:00:00''\<rparr>"

definition stale_bounds :: "real dict" where
  "stale_bounds = [(''north'', 1), (''south'', 0), (''east'', 1), (''west'', 0)]"

text \<open>A request body with no member, carrying bounds and a centre of its own.\<close>

definition stale_geodata :: ProjectGeoData where
  "stale_geodata =
     \<lparr>project_id = ''body'', points = [], polygons = [], lines = [],
      bounds = Some stale_bounds,
      center = Some \<lparr>latitude = 1, longitude = 1, altitude = None\<rparr>\<rparr>"

definition triangle :: "Coordinates list" where
  "triangle =
     [\<lparr>latitude = 0, longitude = 0, altitude = None\<rparr>,
      \<lparr>latitude = 0, longitude = 1, altitude = None\<rparr>,
      \<lparr>latitude = 1, longitude = 0, altitude = None\<rparr>]"

definition stale_polygon :: GeoPolygon where
  "stale_polygon =
     \<lparr>polygon_id = ''pg'', polygon_coordinates = [triangle], polygon_properties = [],
      area_sqm = Some 999, perimeter_m = None, polygon_created_at = ''2024-01-03T00:00:00''\<rparr>"

definition stale_line :: GeoLine where
  "stale_line =
     \<lparr>line_id = ''ln'',
      line_coordinates = [\<lparr>latitude = 0, longitude = 0, altitude = None\<rparr>,
                          \<lparr>latitude = 0, longitude = 1, altitude = None\<rparr>],
      line_properties = [], length_m = Some 5, line_created_at = ''2024-01-04T00:00:00''\<rparr>"

text \<open>A request body with one member of each kind and stale derived fields.\<close>

definition mixed_geodata :: ProjectGeoData where
  "mixed_geodata =
     \<lparr>project_id = ''body'', points = [point_a], polygons = [stale_polygon],
      lines = [stale_line], bounds = Some stale_bounds, center = None\<rparr>"

text \<open>A store that holds an empty aggregate for project \<^verbatim>\<open>p\<close>, cached and on disk.\<close>

definition cached_storage :: storage where
  "cached_storage =
     \<lparr>projects = [''p'' \<mapsto> new_ProjectGeoData ''p''],
      files = [''p'' \<mapsto> Document (new_ProjectGeoData ''p'') ''2024-01-01T00:00:00'']\<rparr>"

text \<open>A polygon whose own properties carry an \<^verbatim>\<open>area_sqm\<close> entry.\<close>

definition labelled_polygon :: GeoPolygon where
  "labelled_polygon =
     \<lparr>polygon_id = ''pg'', polygon_coordinates = [triangle],
      polygon_properties = [(''area_sqm'', JStr ''unknown'')],
      area_sqm = Some 5, perimeter_m = None, polygon_created_at = ''2024-01-03T00:00:00''\<rparr>"

text \<open>A store whose cache holds that polygon, as the only member of project \<^verbatim>\<open>p\<close>.\<close>

definition stored_labelled :: storage where
  "stored_labelled =
     \<lparr>projects = [''p'' \<mapsto> (new_ProjectGeoData ''p'')\<lparr>polygons := [labelled_polygon]\<rparr>],
      files = Map.empty\<rparr>"

text \<open>A request body with a point and a polygon whose \<^verbatim>\<open>area_sqm\<close> is stale.\<close>

definition member_geodata :: ProjectGeoData where
  "member_geodata =
     \<lparr>project_id = ''body'', points = [point_a], polygons = [stale_polygon],
      lines = [], bounds = Some stale_bounds, center = None\<rparr>"

text \<open>A project id of 251 characters: its file name has 256.\<close>

definition long_id :: string where
  "long_id = replicate 251 (CHR ''x'')"








text \<open>
  The store after two requests \<^verbatim>\<open>POST /projects/p/points\<close> in a row on an empty store,
  the first with \<open>point_a\<close> and the second with \<open>point_b\<close>.
\<close>

definition two_appends :: "env \<Rightarrow> env \<Rightarrow> storage" where
  "two_appends e1 e2 =
     snd (add_project_point e2 (snd (add_project_point e1 empty_storage ''p'' point_a)) ''p'' point_b)"

section \<open>Properties of the geometry functions\<close>

lemma py_max_fold: "foldl (\<lambda>m v. if m < v then v else m) x xs = Max (set (x # xs))"
proof -
  have "fold (\<lambda>v m. if m < v then v else m) xs x = fold max xs x"
    by (rule arg_cong [where f = "\<lambda>f. fold f xs x"]) (auto simp: fun_eq_iff max_def)
  then show ?thesis
    by (simp only: Max.set_eq_fold foldl_conv_fold)
qed

lemma py_min_fold: "foldl (\<lambda>m v. if v < m then v else m) x xs = Min (set (x # xs))"
proof -
  have "fold (\<lambda>v m. if v < m then v else m) xs x = fold min xs x"
    by (rule arg_cong [where f = "\<lambda>f. fold f xs x"]) (auto simp: fun_eq_iff min_def)
  then show ?thesis
    by (simp only: Min.set_eq_fold foldl_conv_fold)
qed

lemma py_max_nonempty: "xs \<noteq> [] \<Longrightarrow> py_max xs = Inr (Max (set xs))"
  by (cases xs) (simp_all only: py_max.simps py_max_fold, simp)

lemma py_min_nonempty: "xs \<noteq> [] \<Longrightarrow> py_min xs = Inr (Min (set xs))"
  by (cases xs) (simp_all only: py_min.simps py_min_fold, simp)

lemma calculate_bounds_nonempty:
  assumes "cs \<noteq> []"
  shows "calculate_bounds cs =
           Inr [(''north'', Max (latitude ` set cs)), (''south'', Min (latitude ` set cs)),
                (''east'', Max (longitude ` set cs)), (''west'', Min (longitude ` set cs))]"
  using assms by (simp add: calculate_bounds_def py_max_nonempty py_min_nonempty)



text \<open>
  \<^verbatim>\<open>haversine_distance\<close> raises as soon as the rounded \<^verbatim>\<open>a\<close> exceeds 1: nothing between the
  computation of \<^verbatim>\<open>a\<close> and \<^verbatim>\<open>math.sqrt(1 - a)\<close> brings it back into range.
\<close>

lemma haversine_distance_no_guard:
  assumes "0 \<le> haversine_a m lat1 lon1 lat2 lon2"
    and "fsub 1 (haversine_a m lat1 lon1 lat2 lon2) < 0"
  shows "haversine_distance m lat1 lon1 lat2 lon2 = Inl ValueError"
  using assms by (simp add: haversine_distance_def py_sqrt_def Let_def)

subsection \<open>Properties of the rounding\<close>


lemma round53_0 [simp]: "round53 0 = 0"
  by (simp add: round53_def)





subsection \<open>The shoelace loop on whole degrees\<close>






subsection \<open>The sum of the shoelace terms does not depend on the start of the ring\<close>










subsection \<open>The shoelace loop on a ring of three decimal coordinates\<close>
















































section \<open>Properties of the storage and of the endpoints\<close>

lemma storage_save_cases:
  "GeoDataStorage_save_project_geodata e st pid g =
     (if open_raises e \<or> name_too_long e pid \<or> dumps_raises e g \<or> write_raises e
      then (False, if open_raises e \<or> name_too_long e pid then st
                   else st\<lparr>files := (files st)(pid \<mapsto> Partial)\<rparr>)
      else (True, st\<lparr>files := (files st)(pid \<mapsto> Document g (now e)),
                      projects := (projects st)(pid \<mapsto> g)\<rparr>))"
  by (simp add: GeoDataStorage_save_project_geodata_def)

lemma recompute_polygon_coordinates [simp]:
  "polygon_coordinates (recompute_polygon m p) = polygon_coordinates p"
  by (simp add: recompute_polygon_def)

lemma recompute_lines_spec:
  "recompute_lines m ls = Inr ls' \<Longrightarrow>
     list_all2 (\<lambda>l l'. \<exists>len. calculate_line_length m (line_coordinates l) = Inr len
                              \<and> l' = l\<lparr>length_m := Some len\<rparr>) ls ls'"
  by (induction ls arbitrary: ls') (auto split: sum.splits)

lemma recompute_derived_spec:
  assumes "recompute_derived m pid geodata = Inr g"
  shows "project_id g = pid"
    and "points g = points geodata"
    and "polygons g = map (recompute_polygon m) (polygons geodata)"
    and "recompute_lines m (lines geodata) = Inr (lines g)"
    and "all_Coordinates geodata \<noteq> [] \<Longrightarrow>
           calculate_bounds (all_Coordinates geodata) = Inr b \<Longrightarrow> bounds g = Some b"
    and "all_Coordinates geodata \<noteq> [] \<Longrightarrow>
           calculate_center (all_Coordinates geodata) = Inr c \<Longrightarrow> center g = Some c"
    and "all_Coordinates geodata = [] \<Longrightarrow> bounds g = bounds geodata \<and> center g = center geodata"
  using assms
  by (auto simp: recompute_derived_def Let_def all_Coordinates_def
           split: sum.splits if_splits)

lemma add_project_point_keeps_bounds:
  assumes "GeoDataStorage_load_project_geodata e st pid = (loaded, st1)"
    and "projects (snd (add_project_point e st pid point)) pid = Some g'"
  shows "bounds g' = (case loaded of None \<Rightarrow> None | Some g \<Rightarrow> bounds g)
         \<and> center g' = (case loaded of None \<Rightarrow> None | Some g \<Rightarrow> center g)"
proof (cases loaded)
  case None
  with assms(1) have "projects st1 pid = None"
    by (auto simp: GeoDataStorage_load_project_geodata_def split: option.splits if_splits durable.splits)
  with assms None show ?thesis
    by (auto simp: add_project_point_def storage_save_cases new_ProjectGeoData_def
             split: if_splits)
next
  case (Some g)
  with assms show ?thesis
    by (auto simp: add_project_point_def storage_save_cases split: if_splits)
qed

lemma recompute_one_point:
  "recompute_derived m ''p'' (new_ProjectGeoData ''body''\<lparr>points := [point_a]\<rparr>) =
     Inr \<lparr>project_id = ''p'', points = [point_a], polygons = [], lines = [],
          bounds = Some [(''north'', 10), (''south'', 10), (''east'', 20), (''west'', 20)],
          center = Some \<lparr>latitude = 10, longitude = 20, altitude = None\<rparr>\<rparr>"
  by (simp add: recompute_derived_def new_ProjectGeoData_def all_Coordinates_def point_a_def
        calculate_bounds_def calculate_center_def new_Coordinates_def)

lemma map_of_dict_spread_other:
  "k \<notin> fst ` set d \<Longrightarrow> map_of (dict_spread base d) k = map_of base k"
proof (induction d arbitrary: base)
  case Nil
  show ?case by (simp add: dict_spread_def)
next
  case (Cons kv d)
  have "dict_spread base (kv # d) = dict_spread (AList.update (fst kv) (snd kv) base) d"
    by (simp add: dict_spread_def)
  with Cons show ?case
    by (simp add: update_conv')
qed

lemma map_of_dict_spread_member:
  "k \<in> fst ` set d \<Longrightarrow> \<exists>v. (k, v) \<in> set d \<and> map_of (dict_spread base d) k = Some v"
proof (induction d arbitrary: base)
  case Nil
  then show ?case by simp
next
  case (Cons kv d)
  have step: "dict_spread base (kv # d) = dict_spread (AList.update (fst kv) (snd kv) base) d"
    by (simp add: dict_spread_def)
  show ?case
  proof (cases "k \<in> fst ` set d")
    case True
    from Cons.IH [OF True, of "AList.update (fst kv) (snd kv) base"] show ?thesis
      unfolding step by auto
  next
    case False
    with Cons.prems have k: "fst kv = k" by auto
    have "map_of (dict_spread base (kv # d)) k = Some (snd kv)"
      unfolding step using False k by (simp add: map_of_dict_spread_other update_conv')
    moreover have "(k, snd kv) \<in> set (kv # d)"
      using k by (cases kv) auto
    ultimately show ?thesis by blast
  qed
qed

lemma export_cached:
  assumes "GeoDataStorage_load_project_geodata e st pid = (Some g, st')"
    and "py_lower format = ''geojson''"
  shows "export_project_geodata e st pid format = (Inr (Exported (to_geojson pid g)), st')"
  using assms by (simp add: export_project_geodata_def)

text \<open>
  Where \<^verbatim>\<open>exists\<close> does not raise, deleting is idempotent: a delete succeeds whenever there
  is no file or \<^verbatim>\<open>unlink\<close> does not raise, and after a delete that succeeded the cache
  entry and the file are absent and a second delete succeeds and changes nothing.
\<close>

lemma delete_idempotent_without_faults:
  assumes "\<not> exists_raises e" "\<not> name_too_long e pid"
    and "\<not> exists_raises e'" "\<not> name_too_long e' pid"
  shows "projects st pid = None \<and> files st pid = None \<longrightarrow>
           delete_project_geodata e st pid = (Inr (StatusMessage GeodataDeleted), st)"
    and "files st pid = None \<or> \<not> unlink_raises e \<longrightarrow>
           fst (delete_project_geodata e st pid) = Inr (StatusMessage GeodataDeleted)"
    and "fst (delete_project_geodata e st pid) = Inr (StatusMessage GeodataDeleted) \<longrightarrow>
           projects (snd (delete_project_geodata e st pid)) pid = None
           \<and> files (snd (delete_project_geodata e st pid)) pid = None
           \<and> delete_project_geodata e' (snd (delete_project_geodata e st pid)) pid
               = (Inr (StatusMessage GeodataDeleted), snd (delete_project_geodata e st pid))"
  using assms
  by (auto simp: delete_project_geodata_def GeoDataStorage_delete_project_geodata_def
                 fun_upd_idem
           split: option.splits)

section \<open>The claims\<close>

text \<open>
  C3. The claim: \<^verbatim>\<open>bounds\<close> of an empty sequence fails with an empty-geometry error and
  returns no default. The source guards the empty sequence and returns the empty
  dictionary: the call does not fail.
\<close>

theorem calculate_bounds_empty_not_error: "\<not> isl (calculate_bounds [])"
  by (simp add: calculate_bounds_def)

text \<open>
  C3, as the code has it: \<^verbatim>\<open>calculate_bounds\<close> of an empty sequence returns the empty
  dictionary \<^verbatim>\<open>{}\<close>, with none of the keys north, south, east and west.
\<close>

theorem calculate_bounds_empty: "calculate_bounds [] = Inr []"
  by (simp add: calculate_bounds_def)



text \<open>
  C6. When the file cannot be opened (also because its name is too long),
  \<^verbatim>\<open>json.dumps\<close> raises or the write raises, the storage's \<^verbatim>\<open>save_project_geodata\<close>
  returns \<^verbatim>\<open>False\<close> and leaves the whole cache as it was; the endpoint then raises
  \<^verbatim>\<open>HTTPException(500)\<close> instead of reporting success, and the cache is still as it was
  before the request.
\<close>

theorem save_failure_keeps_cache:
  "(open_raises e \<or> name_too_long e pid \<or> dumps_raises e g \<or> write_raises e \<longrightarrow>
      fst (GeoDataStorage_save_project_geodata e st pid g) = False
      \<and> projects (snd (GeoDataStorage_save_project_geodata e st pid g)) = projects st)
   \<and> (recompute_derived (math e) pid geodata = Inr g
        \<and> (open_raises e \<or> name_too_long e pid \<or> dumps_raises e g \<or> write_raises e) \<longrightarrow>
      fst (save_project_geodata e st pid geodata) = Inl (HTTPException 500 SaveGeodataFailed)
      \<and> projects (snd (save_project_geodata e st pid geodata)) = projects st)"
  by (auto simp: storage_save_cases save_project_geodata_def)

theorem save_failure_keeps_cache_witness:
  "fst (save_project_geodata (python_env ''t'') cached_storage ''p''
          (new_ProjectGeoData ''body''\<lparr>points := [point_a]\<rparr>))
     = Inl (HTTPException 500 SaveGeodataFailed)
   \<and> projects (snd (save_project_geodata (python_env ''t'') cached_storage ''p''
          (new_ProjectGeoData ''body''\<lparr>points := [point_a]\<rparr>)))
     = projects cached_storage"
  using save_failure_keeps_cache
    [where e = "python_env ''t''" and st = cached_storage and pid = "''p''"
       and geodata = "new_ProjectGeoData ''body''\<lparr>points := [point_a]\<rparr>"
       and g = "\<lparr>project_id = ''p'', points = [point_a], polygons = [], lines = [],
          bounds = Some [(''north'', 10), (''south'', 10), (''east'', 20), (''west'', 20)],
          center = Some \<lparr>latitude = 10, longitude = 20, altitude = None\<rparr>\<rparr>"]
  by (simp add: recompute_one_point python_env_def json_dumps_raises_def name_too_long_def)

text \<open>
  C7. The claim: deleting an absent project succeeds, and two deletes in a row both
  succeed. With a project id of 251 characters the file name has 256, \<^verbatim>\<open>file_path.exists()\<close>
  raises inside the \<^verbatim>\<open>try\<close>, and the delete of a project that is neither cached nor on
  disk ends in \<^verbatim>\<open>HTTPException(500)\<close>, the first time and the second.
\<close>

theorem delete_long_id_fails:
  "length long_id = 251
   \<and> projects empty_storage long_id = None \<and> files empty_storage long_id = None
   \<and> delete_project_geodata (python_env ''t1'') empty_storage long_id
       = (Inl (HTTPException 500 DeleteGeodataFailed), empty_storage)
   \<and> delete_project_geodata (python_env ''t2'')
         (snd (delete_project_geodata (python_env ''t1'') empty_storage long_id)) long_id
       = (Inl (HTTPException 500 DeleteGeodataFailed), empty_storage)"
  by (simp add: long_id_def empty_storage_def python_env_def name_too_long_def
        delete_project_geodata_def GeoDataStorage_delete_project_geodata_def)

text \<open>
  C10. When the save endpoint succeeds for path parameter \<open>pid\<close>, the cache and the file
  of \<open>pid\<close> hold one and the same aggregate, and its \<^verbatim>\<open>project_id\<close> is \<open>pid\<close>, whatever
  the request body carried. When it does not succeed it stores no aggregate: the cache is
  unchanged, and the file of \<open>pid\<close> is unchanged or left without a document.
\<close>

theorem save_stores_path_project_id:
  "(fst (save_project_geodata e st pid geodata) = Inr (StatusMessage GeodataSaved) \<longrightarrow>
      (\<exists>g. projects (snd (save_project_geodata e st pid geodata)) pid = Some g
           \<and> files (snd (save_project_geodata e st pid geodata)) pid = Some (Document g (now e))
           \<and> project_id g = pid))
   \<and> (fst (save_project_geodata e st pid geodata) \<noteq> Inr (StatusMessage GeodataSaved) \<longrightarrow>
        projects (snd (save_project_geodata e st pid geodata)) = projects st
        \<and> (files (snd (save_project_geodata e st pid geodata)) pid = files st pid
             \<or> files (snd (save_project_geodata e st pid geodata)) pid = Some Partial))"
  by (auto simp: save_project_geodata_def storage_save_cases recompute_derived_def Let_def
           split: sum.splits if_splits)

theorem save_stores_path_project_id_witness:
  "fst (save_project_geodata (python_env ''t'') empty_storage ''p'' stale_geodata)
     = Inr (StatusMessage GeodataSaved)
   \<and> projects (snd (save_project_geodata (python_env ''t'') empty_storage ''p'' stale_geodata)) ''p''
     = Some (stale_geodata\<lparr>project_id := ''p''\<rparr>)
   \<and> files (snd (save_project_geodata (python_env ''t'') empty_storage ''p'' stale_geodata)) ''p''
     = Some (Document (stale_geodata\<lparr>project_id := ''p''\<rparr>) ''t'')"
  using save_stores_path_project_id [of "python_env ''t''" empty_storage "''p''" stale_geodata]
  by (simp add: save_project_geodata_def recompute_derived_def all_Coordinates_def
        stale_geodata_def python_env_def json_dumps_raises_def name_too_long_def
        empty_storage_def GeoDataStorage_save_project_geodata_def)

text \<open>
  C2. The claim: after a save, a load returns the aggregate with every derived field
  recomputed. A request with a point and a polygon ends in \<^verbatim>\<open>HTTPException(500)\<close>:
  \<^verbatim>\<open>json.dumps\<close> raises on the members' \<^verbatim>\<open>created_at\<close> after the file was opened, and the
  following load finds no aggregate. A request without any member is stored, with the
  bounds and the centre of its body: the endpoint assigns them only under
  \<^verbatim>\<open>if all_coordinates:\<close>, while \<^verbatim>\<open>calculate_bounds\<close> and \<^verbatim>\<open>calculate_center\<close> of its
  (empty) coordinates give \<^verbatim>\<open>{}\<close> and \<open>(0, 0)\<close>.
\<close>

theorem save_then_load_not_recomputed:
  "fst (save_project_geodata (python_env ''t1'') empty_storage ''p'' member_geodata)
     = Inl (HTTPException 500 SaveGeodataFailed)
   \<and> fst (GeoDataStorage_load_project_geodata (python_env ''t2'')
           (snd (save_project_geodata (python_env ''t1'') empty_storage ''p'' member_geodata)) ''p'')
     = None
   \<and> fst (save_project_geodata (python_env ''t1'') empty_storage ''p'' stale_geodata)
     = Inr (StatusMessage GeodataSaved)
   \<and> fst (GeoDataStorage_load_project_geodata (python_env ''t2'')
           (snd (save_project_geodata (python_env ''t1'') empty_storage ''p'' stale_geodata)) ''p'')
     = Some (stale_geodata\<lparr>project_id := ''p''\<rparr>)
   \<and> bounds (stale_geodata\<lparr>project_id := ''p''\<rparr>) = Some stale_bounds
   \<and> calculate_bounds (all_Coordinates stale_geodata) = Inr []
   \<and> stale_bounds \<noteq> []
   \<and> center (stale_geodata\<lparr>project_id := ''p''\<rparr>)
       = Some \<lparr>latitude = 1, longitude = 1, altitude = None\<rparr>
   \<and> calculate_center (all_Coordinates stale_geodata)
       = Inr \<lparr>latitude = 0, longitude = 0, altitude = None\<rparr>"
proof -
  have m: "fst (save_project_geodata (python_env ''t1'') empty_storage ''p'' member_geodata)
             = Inl (HTTPException 500 SaveGeodataFailed)
           \<and> fst (GeoDataStorage_load_project_geodata (python_env ''t2'')
                 (snd (save_project_geodata (python_env ''t1'') empty_storage ''p'' member_geodata))
                 ''p'')
             = None"
    by (simp add: save_project_geodata_def recompute_derived_def all_Coordinates_def
          member_geodata_def point_a_def stale_polygon_def triangle_def
          calculate_bounds_def calculate_center_def new_Coordinates_def
          python_env_def json_dumps_raises_def name_too_long_def empty_storage_def
          GeoDataStorage_save_project_geodata_def GeoDataStorage_load_project_geodata_def)
  have s: "fst (save_project_geodata (python_env ''t1'') empty_storage ''p'' stale_geodata)
             = Inr (StatusMessage GeodataSaved)
           \<and> fst (GeoDataStorage_load_project_geodata (python_env ''t2'')
                 (snd (save_project_geodata (python_env ''t1'') empty_storage ''p'' stale_geodata))
                 ''p'')
             = Some (stale_geodata\<lparr>project_id := ''p''\<rparr>)"
    by (simp add: save_project_geodata_def recompute_derived_def all_Coordinates_def
          stale_geodata_def python_env_def json_dumps_raises_def name_too_long_def
          empty_storage_def GeoDataStorage_save_project_geodata_def
          GeoDataStorage_load_project_geodata_def)
  have r: "bounds (stale_geodata\<lparr>project_id := ''p''\<rparr>) = Some stale_bounds
           \<and> calculate_bounds (all_Coordinates stale_geodata) = Inr []
           \<and> stale_bounds \<noteq> []
           \<and> center (stale_geodata\<lparr>project_id := ''p''\<rparr>)
               = Some \<lparr>latitude = 1, longitude = 1, altitude = None\<rparr>
           \<and> calculate_center (all_Coordinates stale_geodata)
               = Inr \<lparr>latitude = 0, longitude = 0, altitude = None\<rparr>"
    by (simp add: all_Coordinates_def stale_geodata_def calculate_bounds_def
          calculate_center_def new_Coordinates_def stale_bounds_def)
  from m s r show ?thesis
    by (intro conjI) simp_all
qed

text \<open>
  C8. The claim: every polygon feature's properties include the polygon's \<^verbatim>\<open>area_sqm\<close>.
  The feature's properties are \<^verbatim>\<open>{"id": .., "area_sqm": polygon.area_sqm,
  **polygon.properties}\<close>: an \<^verbatim>\<open>area_sqm\<close> entry of the polygon's own properties is stored
  last and replaces the computed one. The cached polygon below has \<^verbatim>\<open>area_sqm = 5\<close> and is
  exported with \<^verbatim>\<open>"area_sqm": "unknown"\<close>.
\<close>

theorem export_area_overridden:
  "fst (export_project_geodata (python_env ''t'') stored_labelled ''p'' ''geojson'')
     = Inr (Exported (to_geojson ''p'' ((new_ProjectGeoData ''p'')\<lparr>polygons := [labelled_polygon]\<rparr>)))
   \<and> json_get ''features''
        (to_geojson ''p'' ((new_ProjectGeoData ''p'')\<lparr>polygons := [labelled_polygon]\<rparr>))
     = Some (JArr
         [JObj [(''type'', JStr ''Feature''),
                (''geometry'',
                   JObj [(''type'', JStr ''Polygon''),
                         (''coordinates'',
                            JArr [JArr [JArr [JNum 0, JNum 0], JArr [JNum 1, JNum 0],
                                        JArr [JNum 0, JNum 1]]])]),
                (''properties'',
                   JObj [(''id'', JStr ''pg''), (''area_sqm'', JStr ''unknown'')])]])
   \<and> area_sqm labelled_polygon = Some 5"
proof -
  have l: "py_lower ''geojson'' = ''geojson''"
    by code_simp
  show ?thesis
    by (simp add: export_project_geodata_def GeoDataStorage_load_project_geodata_def
          stored_labelled_def l to_geojson_def geojson_features_def new_ProjectGeoData_def
          labelled_polygon_def polygon_feature_def dict_spread_def lon_lat_def triangle_def
          float_or_null_def)
qed

text \<open>
  C8, as the code has it. When the project loads and the format is \<^verbatim>\<open>geojson\<close> in any
  letter case, the export is the feature collection of the aggregate. In it the feature of
  every point has the geometry coordinates \<open>[longitude, latitude]\<close>, and the properties of
  the feature of every polygon have an \<^verbatim>\<open>area_sqm\<close> entry: the polygon's \<^verbatim>\<open>area_sqm\<close>
  (\<^verbatim>\<open>null\<close> when it is \<^verbatim>\<open>None\<close>) when the polygon's own properties have no such key, and
  otherwise a value of that key in the polygon's own properties.
\<close>

theorem export_lon_lat_and_area:
  "(GeoDataStorage_load_project_geodata e st pid = (Some g, st')
      \<and> py_lower format = ''geojson'' \<longrightarrow>
      export_project_geodata e st pid format = (Inr (Exported (to_geojson pid g)), st'))
   \<and> json_get ''features'' (to_geojson pid g) = Some (JArr (geojson_features g))
   \<and> (\<forall>i<length (points g).
         \<exists>geometry. json_get ''geometry'' (geojson_features g ! i) = Some geometry
           \<and> json_get ''coordinates'' geometry
               = Some (JArr [JNum (longitude (point_coordinates (points g ! i))),
                             JNum (latitude (point_coordinates (points g ! i)))]))
   \<and> (\<forall>i<length (polygons g).
         \<exists>properties.
           json_get ''properties'' (geojson_features g ! (length (points g) + i))
             = Some (JObj properties)
           \<and> (''area_sqm'' \<notin> fst ` set (polygon_properties (polygons g ! i)) \<longrightarrow>
                map_of properties ''area_sqm'' = Some (float_or_null (area_sqm (polygons g ! i))))
           \<and> (''area_sqm'' \<in> fst ` set (polygon_properties (polygons g ! i)) \<longrightarrow>
                (\<exists>v. (''area_sqm'', v) \<in> set (polygon_properties (polygons g ! i))
                    \<and> map_of properties ''area_sqm'' = Some v)))"
proof (intro conjI allI impI)
  assume "GeoDataStorage_load_project_geodata e st pid = (Some g, st')
      \<and> py_lower format = ''geojson''"
  then show "export_project_geodata e st pid format = (Inr (Exported (to_geojson pid g)), st')"
    by (simp add: export_cached)
next
  show "json_get ''features'' (to_geojson pid g) = Some (JArr (geojson_features g))"
    by (simp add: to_geojson_def)
next
  fix i assume i: "i < length (points g)"
  then have "geojson_features g ! i = point_feature (points g ! i)"
    by (simp add: geojson_features_def nth_append)
  then show "\<exists>geometry. json_get ''geometry'' (geojson_features g ! i) = Some geometry
           \<and> json_get ''coordinates'' geometry
               = Some (JArr [JNum (longitude (point_coordinates (points g ! i))),
                             JNum (latitude (point_coordinates (points g ! i)))])"
    by (simp add: point_feature_def lon_lat_def)
next
  fix i assume i: "i < length (polygons g)"
  let ?p = "polygons g ! i"
  let ?props = "dict_spread [(''id'', JStr (polygon_id ?p)),
                             (''area_sqm'', float_or_null (area_sqm ?p))] (polygon_properties ?p)"
  have f: "geojson_features g ! (length (points g) + i) = polygon_feature ?p"
    using i by (simp add: geojson_features_def nth_append)
  have 1: "json_get ''properties'' (geojson_features g ! (length (points g) + i))
             = Some (JObj ?props)"
    by (simp add: f polygon_feature_def)
  have 2: "''area_sqm'' \<notin> fst ` set (polygon_properties ?p) \<longrightarrow>
             map_of ?props ''area_sqm'' = Some (float_or_null (area_sqm ?p))"
    by (simp add: map_of_dict_spread_other)
  have 3: "''area_sqm'' \<in> fst ` set (polygon_properties ?p) \<longrightarrow>
             (\<exists>v. (''area_sqm'', v) \<in> set (polygon_properties ?p)
                 \<and> map_of ?props ''area_sqm'' = Some v)"
    using map_of_dict_spread_member by blast
  from 1 2 3
  show "\<exists>properties.
           json_get ''properties'' (geojson_features g ! (length (points g) + i))
             = Some (JObj properties)
           \<and> (''area_sqm'' \<notin> fst ` set (polygon_properties (polygons g ! i)) \<longrightarrow>
                map_of properties ''area_sqm'' = Some (float_or_null (area_sqm (polygons g ! i))))
           \<and> (''area_sqm'' \<in> fst ` set (polygon_properties (polygons g ! i)) \<longrightarrow>
                (\<exists>v. (''area_sqm'', v) \<in> set (polygon_properties (polygons g ! i))
                    \<and> map_of properties ''area_sqm'' = Some v))"
    by blast
qed

theorem export_lon_lat_and_area_witness:
  "export_project_geodata (python_env ''t'')
       \<lparr>projects = [''p'' \<mapsto> mixed_geodata], files = Map.empty\<rparr> ''p'' ''GeoJSON''
     = (Inr (Exported (to_geojson ''p'' mixed_geodata)),
        \<lparr>projects = [''p'' \<mapsto> mixed_geodata], files = Map.empty\<rparr>)
   \<and> (\<exists>geometry. json_get ''geometry'' (geojson_features mixed_geodata ! 0) = Some geometry
         \<and> json_get ''coordinates'' geometry = Some (JArr [JNum 20, JNum 10]))
   \<and> (\<exists>properties. json_get ''properties'' (geojson_features mixed_geodata ! 1)
           = Some (JObj properties)
         \<and> map_of properties ''area_sqm'' = Some (JNum 999))"
proof -
  let ?st = "\<lparr>projects = [''p'' \<mapsto> mixed_geodata], files = Map.empty\<rparr>"
  note t = export_lon_lat_and_area
             [of "python_env ''t''" ?st "''p''" mixed_geodata ?st "''GeoJSON''"]
  have l: "py_lower ''GeoJSON'' = ''geojson''"
    by code_simp
  have ld: "GeoDataStorage_load_project_geodata (python_env ''t'') ?st ''p''
              = (Some mixed_geodata, ?st)"
    by (simp add: GeoDataStorage_load_project_geodata_def)
  have a: "export_project_geodata (python_env ''t'') ?st ''p'' ''GeoJSON''
             = (Inr (Exported (to_geojson ''p'' mixed_geodata)), ?st)"
    using t l ld by blast
  have "0 < length (points mixed_geodata)"
    by (simp add: mixed_geodata_def)
  with t have "\<exists>geometry. json_get ''geometry'' (geojson_features mixed_geodata ! 0) = Some geometry
           \<and> json_get ''coordinates'' geometry
               = Some (JArr [JNum (longitude (point_coordinates (points mixed_geodata ! 0))),
                             JNum (latitude (point_coordinates (points mixed_geodata ! 0)))])"
    by blast
  then have b: "\<exists>geometry. json_get ''geometry'' (geojson_features mixed_geodata ! 0) = Some geometry
         \<and> json_get ''coordinates'' geometry = Some (JArr [JNum 20, JNum 10])"
    by (simp add: mixed_geodata_def point_a_def)
  have "0 < length (polygons mixed_geodata)"
    by (simp add: mixed_geodata_def)
  with t obtain properties where
    p: "json_get ''properties'' (geojson_features mixed_geodata ! (length (points mixed_geodata) + 0))
             = Some (JObj properties)"
    and q: "''area_sqm'' \<notin> fst ` set (polygon_properties (polygons mixed_geodata ! 0)) \<longrightarrow>
                map_of properties ''area_sqm''
                  = Some (float_or_null (area_sqm (polygons mixed_geodata ! 0)))"
    by blast
  have c: "\<exists>properties. json_get ''properties'' (geojson_features mixed_geodata ! 1)
           = Some (JObj properties)
         \<and> map_of properties ''area_sqm'' = Some (JNum 999)"
    using p q by (simp add: mixed_geodata_def stale_polygon_def float_or_null_def)
  from a b c show ?thesis
    by (intro conjI)
qed




text \<open>
  C1. The claim: two appends in a row leave an aggregate with exactly the two points and
  with bounds and a centre that cover both. On an empty store, with Python's
  \<^verbatim>\<open>json.dumps\<close>, each of the two requests ends in \<^verbatim>\<open>HTTPException(500)\<close>: the aggregate
  holds a point, whose \<^verbatim>\<open>created_at\<close> cannot be serialised; afterwards the cache has no
  entry for the project and its file holds no document. With a serialiser that accepts
  every aggregate in its place, the cache ends with both points, and with neither bounds
  nor centre: \<^verbatim>\<open>add_project_point\<close> computes none.
\<close>

theorem two_appends_lose_points_and_bounds:
  "fst (add_project_point (python_env ''t1'') empty_storage ''p'' point_a)
     = Inl (HTTPException 500 SavePointFailed)
   \<and> fst (add_project_point (python_env ''t2'')
            (snd (add_project_point (python_env ''t1'') empty_storage ''p'' point_a)) ''p'' point_b)
     = Inl (HTTPException 500 SavePointFailed)
   \<and> projects (two_appends (python_env ''t1'') (python_env ''t2'')) ''p'' = None
   \<and> files (two_appends (python_env ''t1'') (python_env ''t2'')) ''p'' = Some Partial
   \<and> projects (two_appends ((python_env ''t1'')\<lparr>dumps_raises := (\<lambda>g. False)\<rparr>)
                          ((python_env ''t2'')\<lparr>dumps_raises := (\<lambda>g. False)\<rparr>)) ''p''
     = Some \<lparr>project_id = ''p'', points = [point_a, point_b], polygons = [], lines = [],
             bounds = None, center = None\<rparr>"
  by (simp add: two_appends_def add_project_point_def empty_storage_def python_env_def
        json_dumps_raises_def name_too_long_def new_ProjectGeoData_def
        GeoDataStorage_load_project_geodata_def GeoDataStorage_save_project_geodata_def)

end
